theory Spec2Isabelle
  imports Main "HOL-Library.Word"
begin

section \<open>Python values, exceptions and log records\<close>

text \<open>
  The module \<^verbatim>\<open>atlasapi/cloud_backup.py\<close> turns the dictionary of a deserialised API
  response into a \<^verbatim>\<open>CloudBackupSnapshot\<close> object. Python checks no type annotation at run
  time, so the dictionary's values and the object's attributes are modelled by one type
  of Python values: the values of a JSON document and the objects \<^verbatim>\<open>from_dict\<close> itself
  creates (enumeration members and datetimes).
\<close>

text \<open>
  The two enumerations the module declares. Python looks a member up by its name; the
  member's value (\<^verbatim>\<open>"On Demand"\<close>, \<^verbatim>\<open>"In Progress"\<close>, ...) takes no part in
  \<^verbatim>\<open>from_dict\<close>.
\<close>

datatype SnapshotType = ONDEMAND | SCHEDULED

datatype SnapshotStatus = QUEUED | INPROGRESS | COMPLETED | FAILED

text \<open>
  Modelled from the spec: \<^verbatim>\<open>ProviderName\<close> is declared in \<^verbatim>\<open>atlasapi.lib\<close>, which is
  not part of the source at hand. The specification lists the provider identifiers AWS,
  AZURE, GCP and TENANT, TENANT being the fallback.
\<close>

datatype ProviderName = AWS | GCP | AZURE | TENANT

text \<open>
  Modelled from the spec: \<^verbatim>\<open>ClusterType\<close> is declared in \<^verbatim>\<open>atlasapi.lib\<close> as well. The
  specification lists a replica-set and a sharded-cluster member. Members are looked up
  by the uppercased API string (\<^verbatim>\<open>replicaSet\<close>, \<^verbatim>\<open>shardedCluster\<close> in the docstring of
  the constructor), and the module itself parses \<^verbatim>\<open>"type": "replicaSet"\<close> when it is
  loaded, so the names are written without underscore, as those of \<^verbatim>\<open>SnapshotType\<close> and
  \<^verbatim>\<open>SnapshotStatus\<close> are in the source.
\<close>

datatype ClusterType = REPLICASET | SHARDEDCLUSTER

text \<open>
  A \<^verbatim>\<open>datetime\<close> object by its attributes; \<open>utcoffset\<close> is the offset of an aware
  datetime in seconds, \<open>None\<close> for a naive one.
\<close>

record datetime =
  year :: int
  month :: int
  day :: int
  hour :: int
  minute :: int
  second :: int
  microsecond :: int
  utcoffset :: "int option"

text \<open>
  Python integers are unbounded; a float is an IEEE double, kept as its 64 bits (the module
  never computes with one).
\<close>

datatype pyval =
    PyNone
  | PyBool bool
  | PyInt int
  | PyFloat "64 word"
  | PyStr string
  | PyList "pyval list"
  | PyDict "(string \<times> pyval) list"
  | PyDatetime datetime
  | PyProviderName ProviderName
  | PyClusterType ClusterType
  | PySnapshotType SnapshotType
  | PySnapshotStatus SnapshotStatus

text \<open>
  The exception classes that matter to the module. An exception of a subclass stands as
  the listed class that an \<^verbatim>\<open>except\<close> clause catches it by (dateutil's \<^verbatim>\<open>ParserError\<close> is a
  \<^verbatim>\<open>ValueError\<close>).
\<close>

datatype exn = KeyError | AttributeError | TypeError | ValueError | OverflowError

text \<open>
  A call of the module's logger: the level, the text of the message before the
  interpolated value, and that value.
\<close>

datatype log_level = DEBUG | INFO | WARNING | ERROR | CRITICAL

type_synonym log_record = "log_level \<times> string \<times> pyval"

text \<open>The input dictionary: string keys, any values.\<close>

type_synonym py_dict = "string \<Rightarrow> pyval option"

text \<open>\<^verbatim>\<open>data_dict.get(key)\<close>, whose default is \<^verbatim>\<open>None\<close>.\<close>

definition dict_get :: "py_dict \<Rightarrow> string \<Rightarrow> pyval" where
  "dict_get data_dict key = (case data_dict key of None \<Rightarrow> PyNone | Some v \<Rightarrow> v)"

text \<open>
  A Python string is kept as the bytes of its UTF-8 encoding, so the ASCII strings are
  those of characters below 128 (\<^verbatim>\<open>str.isascii\<close>).
\<close>

definition isascii :: "string \<Rightarrow> bool" where
  "isascii s = list_all (\<lambda>c. (of_char c :: nat) < 128) s"

text \<open>
  \<^verbatim>\<open>str.upper\<close> is a method of the interpreter that follows the Unicode case mappings
  (it maps the dotless i and the long s to \<^verbatim>\<open>I\<close> and \<^verbatim>\<open>S\<close>, the sharp s to \<^verbatim>\<open>SS\<close>). It
  is a parameter \<open>str_upper\<close> of the model. What it does on an ASCII string is
  \<open>ascii_upper\<close>: the letters a to z are replaced by A to Z, every other character is
  kept.
\<close>

definition upper_char :: "char \<Rightarrow> char" where
  "upper_char c =
     (let n = of_char c :: nat in if 97 \<le> n \<and> n \<le> 122 then char_of (n - 32) else c)"

definition ascii_upper :: "string \<Rightarrow> string" where
  "ascii_upper s = map upper_char s"

text \<open>
  The expression \<^verbatim>\<open>v.upper()\<close>: only a string has the attribute.
\<close>

fun py_upper :: "(string \<Rightarrow> string) \<Rightarrow> pyval \<Rightarrow> exn + pyval" where
  "py_upper str_upper (PyStr s) = Inr (PyStr (str_upper s))"
| "py_upper str_upper v = Inl AttributeError"

text \<open>Lists and dictionaries cannot be hashed; every other value can.\<close>

fun hashable :: "pyval \<Rightarrow> bool" where
  "hashable (PyList xs) = False"
| "hashable (PyDict kvs) = False"
| "hashable v = True"

text \<open>
  \<^verbatim>\<open>E[name]\<close> on an enumeration class reads the dictionary of the members by name:
  \<^verbatim>\<open>TypeError\<close> for a key that cannot be hashed, \<^verbatim>\<open>KeyError\<close> for a key that is not
  a member's name.
\<close>

fun enum_getitem :: "(string \<times> 'a) list \<Rightarrow> pyval \<Rightarrow> exn + 'a" where
  "enum_getitem member_map (PyStr s) =
     (case map_of member_map s of None \<Rightarrow> Inl KeyError | Some m \<Rightarrow> Inr m)"
| "enum_getitem member_map v = (if hashable v then Inl KeyError else Inl TypeError)"

definition SnapshotType_members :: "(string \<times> SnapshotType) list" where
  "SnapshotType_members = [(''ONDEMAND'', ONDEMAND), (''SCHEDULED'', SCHEDULED)]"

definition SnapshotStatus_members :: "(string \<times> SnapshotStatus) list" where
  "SnapshotStatus_members =
     [(''QUEUED'', QUEUED), (''INPROGRESS'', INPROGRESS), (''COMPLETED'', COMPLETED),
      (''FAILED'', FAILED)]"

definition ProviderName_members :: "(string \<times> ProviderName) list" where
  "ProviderName_members =
     [(''AWS'', AWS), (''GCP'', GCP), (''AZURE'', AZURE), (''TENANT'', TENANT)]"

definition ClusterType_members :: "(string \<times> ClusterType) list" where
  "ClusterType_members = [(''REPLICASET'', REPLICASET), (''SHARDEDCLUSTER'', SHARDEDCLUSTER)]"

section \<open>The date helper\<close>

text \<open>
  \<^verbatim>\<open>dateutil.parser.parse\<close> belongs to a library outside the repository. It is a
  parameter of the model: the function, at the moment of a call of \<^verbatim>\<open>from_dict\<close>, from
  the value it is given to the datetime it returns or the exception it raises. The moment
  matters: the library completes a string that lacks a date from the current day.
\<close>

type_synonym date_parser = "pyval \<Rightarrow> exn + datetime"

text \<open>
  \<^verbatim>\<open>try_date\<close>: the three exception classes of the \<^verbatim>\<open>except\<close> clause are logged at
  debug level and turned into \<^verbatim>\<open>None\<close>; any other exception leaves the function.
\<close>

definition try_date :: "date_parser \<Rightarrow> pyval \<Rightarrow> log_record list \<times> (exn + pyval)" where
  "try_date parse str_in =
     (case parse str_in of
        Inr datetime_out \<Rightarrow> ([], Inr (PyDatetime datetime_out))
      | Inl e \<Rightarrow>
          if e = ValueError \<or> e = TypeError \<or> e = AttributeError
          then ([(DEBUG, ''Could not parse a date from : '', str_in)], Inr PyNone)
          else ([], Inl e))"

section \<open>The snapshot object\<close>

record CloudBackupSnapshot =
  type_attr :: pyval
  storage_size_bytes :: pyval
  status :: pyval
  snapshot_type :: pyval
  snapshot_ids :: pyval
  replica_set_name :: pyval
  mongod_version :: pyval
  members :: pyval
  masterkey_uuid :: pyval
  links :: pyval
  expires_at :: pyval
  description :: pyval
  created_at :: pyval
  cloud_provider :: pyval
  id_attr :: pyval

text \<open>
  A keyword parameter with default \<^verbatim>\<open>None\<close>: \<open>None\<close> is an argument left out,
  \<open>Some v\<close> an argument supplied.
\<close>

definition default_None :: "pyval option \<Rightarrow> pyval" where
  "default_None a = (case a of None \<Rightarrow> PyNone | Some v \<Rightarrow> v)"

text \<open>
  \<^verbatim>\<open>CloudBackupSnapshot.__init__\<close>, the parameters in the order of its signature, the
  assignments in the order of its body.
\<close>

definition CloudBackupSnapshot_init ::
  "pyval option \<Rightarrow> pyval option \<Rightarrow> pyval option \<Rightarrow> pyval option \<Rightarrow> pyval option \<Rightarrow>
   pyval option \<Rightarrow> pyval option \<Rightarrow> pyval option \<Rightarrow> pyval option \<Rightarrow> pyval option \<Rightarrow>
   pyval option \<Rightarrow> pyval option \<Rightarrow> pyval option \<Rightarrow> pyval option \<Rightarrow> pyval option \<Rightarrow>
   CloudBackupSnapshot" where
  "CloudBackupSnapshot_init id0 cloud_provider0 created_at0 description0 expires_at0 links0
       masterkey_uuid0 members0 mongod_version0 replica_set_name0 snapshot_ids0
       snapshot_type0 status0 storage_size_bytes0 type0 =
     \<lparr> type_attr = default_None type0,
       storage_size_bytes = default_None storage_size_bytes0,
       status = default_None status0,
       snapshot_type = default_None snapshot_type0,
       snapshot_ids = default_None snapshot_ids0,
       replica_set_name = default_None replica_set_name0,
       mongod_version = default_None mongod_version0,
       members = default_None members0,
       masterkey_uuid = default_None masterkey_uuid0,
       links = default_None links0,
       expires_at = default_None expires_at0,
       description = default_None description0,
       created_at = default_None created_at0,
       cloud_provider = default_None cloud_provider0,
       id_attr = default_None id0 \<rparr>"

section \<open>The parser of a response\<close>

text \<open>
  The \<^verbatim>\<open>try\<close> statement around the provider lookup: only \<^verbatim>\<open>KeyError\<close> is replaced by
  \<^verbatim>\<open>ProviderName.TENANT\<close>.
\<close>

definition lookup_cloud_provider :: "py_dict \<Rightarrow> exn + ProviderName" where
  "lookup_cloud_provider data_dict =
     (case enum_getitem ProviderName_members (dict_get data_dict ''cloudProvider'') of
        Inr m \<Rightarrow> Inr m
      | Inl e \<Rightarrow> if e = KeyError then Inr TENANT else Inl e)"

text \<open>
  The expression \<^verbatim>\<open>E[data_dict.get(key).upper()]\<close> of the three lookups without a
  \<^verbatim>\<open>try\<close>.
\<close>

definition lookup_upper ::
  "(string \<Rightarrow> string) \<Rightarrow> (string \<times> 'a) list \<Rightarrow> py_dict \<Rightarrow> string \<Rightarrow> exn + 'a" where
  "lookup_upper str_upper member_map data_dict key =
     (case py_upper str_upper (dict_get data_dict key) of
        Inl e \<Rightarrow> Inl e
      | Inr name \<Rightarrow> enum_getitem member_map name)"

text \<open>
  \<^verbatim>\<open>CloudBackupSnapshot.from_dict\<close>, statement by statement. The result is the list of
  the log records emitted, and either the exception that left the function or the object
  it returned.
\<close>

definition from_dict ::
  "(string \<Rightarrow> string) \<Rightarrow> date_parser \<Rightarrow> py_dict \<Rightarrow>
   log_record list \<times> (exn + CloudBackupSnapshot)" where
  "from_dict str_upper parse data_dict =
     (let id0 = dict_get data_dict ''id'' in
      case lookup_cloud_provider data_dict of
        Inl e \<Rightarrow> ([], Inl e)
      | Inr cloud_provider0 \<Rightarrow>
     (case try_date parse (dict_get data_dict ''createdAt'') of
        (log1, Inl e) \<Rightarrow> (log1, Inl e)
      | (log1, Inr created_at0) \<Rightarrow>
     (case try_date parse (dict_get data_dict ''expiresAt'') of
        (log2, Inl e) \<Rightarrow> (log1 @ log2, Inl e)
      | (log2, Inr expires_at0) \<Rightarrow>
     (let description0 = dict_get data_dict ''description'' in
      case lookup_upper str_upper SnapshotType_members data_dict ''snapshotType'' of
        Inl e \<Rightarrow> (log1 @ log2, Inl e)
      | Inr snapshot_type0 \<Rightarrow>
     (case lookup_upper str_upper ClusterType_members data_dict ''type'' of
        Inl e \<Rightarrow> (log1 @ log2, Inl e)
      | Inr cluster_type \<Rightarrow>
     (case lookup_upper str_upper SnapshotStatus_members data_dict ''status'' of
        Inl e \<Rightarrow> (log1 @ log2, Inl e)
      | Inr snapshot_status \<Rightarrow>
     (let storage_size_bytes0 = dict_get data_dict ''storageSizeBytes'';
          replica_set_name0 = dict_get data_dict ''replicaSetName'';
          links0 = dict_get data_dict ''links'';
          masterkey = dict_get data_dict ''masterKeyUUID'';
          members0 = dict_get data_dict ''members'';
          mongod_version0 = dict_get data_dict ''mongodVersion'';
          snapshot_ids0 = dict_get data_dict ''snapshotIds''
      in (log1 @ log2,
          Inr (CloudBackupSnapshot_init
                 (Some id0)
                 (Some (PyProviderName cloud_provider0))
                 (Some created_at0)
                 (Some description0)
                 (Some expires_at0)
                 (Some links0)
                 (Some masterkey)
                 (Some members0)
                 (Some mongod_version0)
                 (Some replica_set_name0)
                 (Some snapshot_ids0)
                 (Some (PySnapshotType snapshot_type0))
                 (Some (PySnapshotStatus snapshot_status))
                 (Some storage_size_bytes0)
                 (Some (PyClusterType cluster_type)))))))))))"

section \<open>Concrete inputs\<close>

text \<open>
  The dictionary \<^verbatim>\<open>test_data\<close> that the module parses when it is loaded.
\<close>

definition test_data :: py_dict where
  "test_data = map_of
     [(''cloudProvider'', PyStr ''AWS''),
      (''createdAt'', PyStr ''2021-07-31T02:02:25Z''),
      (''expiresAt'', PyStr ''2021-08-28T02:03:22Z''),
      (''id'', PyStr ''6104a8c6c1b4ef7788b5d8f0''),
      (''links'',
         PyList
           [PyDict
              [(''href'', PyStr ''https://cloud.mongodb.com/api/atlas/v1.0/groups/5b1e92c13b34b93b0230e6e1/clusters/pyAtlasTestCluster/backup/snapshots/6104a8c6c1b4ef7788b5d8f0''),
               (''rel'', PyStr ''self'')],
            PyDict
              [(''href'', PyStr ''https://cloud.mongodb.com/api/atlas/v1.0/groups/5b1e92c13b34b93b0230e6e1/clusters/pyAtlasTestCluster''),
               (''rel'', PyStr ''http://cloud.mongodb.com/cluster'')]]),
      (''mongodVersion'', PyStr ''4.2.15''),
      (''replicaSetName'', PyStr ''pyAtlasTestCluster''),
      (''snapshotType'', PyStr ''scheduled''),
      (''status'', PyStr ''completed''),
      (''storageSizeBytes'', PyInt 14380134400),
      (''type'', PyStr ''replicaSet'')]"

text \<open>The dictionary of the specification's scenario: \<^verbatim>\<open>test_data\<close> without its links.\<close>

definition scenario_data :: py_dict where
  "scenario_data = map_of
     [(''snapshotType'', PyStr ''scheduled''),
      (''type'', PyStr ''replicaSet''),
      (''status'', PyStr ''completed''),
      (''cloudProvider'', PyStr ''AWS''),
      (''createdAt'', PyStr ''2021-07-31T02:02:25Z''),
      (''expiresAt'', PyStr ''2021-08-28T02:03:22Z''),
      (''id'', PyStr ''6104a8c6c1b4ef7788b5d8f0''),
      (''storageSizeBytes'', PyInt 14380134400),
      (''replicaSetName'', PyStr ''pyAtlasTestCluster''),
      (''mongodVersion'', PyStr ''4.2.15'')]"

text \<open>A dictionary with the three enumerated entries only, in the API's mixed case.\<close>

definition on_demand_data :: py_dict where
  "on_demand_data = map_of
     [(''snapshotType'', PyStr ''onDemand''),
      (''type'', PyStr ''shardedCluster''),
      (''status'', PyStr ''inProgress'')]"

text \<open>The two timestamps of \<^verbatim>\<open>test_data\<close>, in UTC.\<close>

definition created_2021_07_31 :: datetime where
  "created_2021_07_31 =
     \<lparr> year = 2021, month = 7, day = 31, hour = 2, minute = 2, second = 25,
       microsecond = 0, utcoffset = Some 0 \<rparr>"

definition expires_2021_08_28 :: datetime where
  "expires_2021_08_28 =
     \<lparr> year = 2021, month = 8, day = 28, hour = 2, minute = 3, second = 22,
       microsecond = 0, utcoffset = Some 0 \<rparr>"

text \<open>
  A finite stand-in for the library's parser, for evaluating the model on concrete
  dictionaries. It answers as \<^verbatim>\<open>dateutil.parser.parse\<close> is documented to: \<^verbatim>\<open>TypeError\<close>
  for a value that is no string, the datetime for the two timestamps above,
  \<^verbatim>\<open>OverflowError\<close> for a digit string whose year does not fit a C integer, and
  \<^verbatim>\<open>ParserError\<close> (a \<^verbatim>\<open>ValueError\<close>) for the other strings.
\<close>

fun sample_parse :: date_parser where
  "sample_parse (PyStr s) =
     (if s = ''2021-07-31T02:02:25Z'' then Inr created_2021_07_31
      else if s = ''2021-08-28T02:03:22Z'' then Inr expires_2021_08_28
      else if s = ''08335394550'' then Inl OverflowError
      else Inl ValueError)"
| "sample_parse v = Inl TypeError"

text \<open>
  A stand-in for \<^verbatim>\<open>str.upper\<close> that knows one letter beyond ASCII: the dotless i
  (U+0131, the bytes C4 B1), whose uppercase is \<^verbatim>\<open>I\<close>. On ASCII strings the plain
  \<open>ascii_upper\<close> stands in.
\<close>

definition dotless_i :: string where
  "dotless_i = [CHR 0xC4, CHR 0xB1]"

fun sample_upper :: "string \<Rightarrow> string" where
  "sample_upper [] = []"
| "sample_upper [c] = [upper_char c]"
| "sample_upper (c # d # s) =
     (if c = CHR 0xC4 \<and> d = CHR 0xB1 then CHR ''I'' # sample_upper s
      else upper_char c # sample_upper (d # s))"

text \<open>
  The same stand-in on a given day: as the library does, it completes the time of day
  \<^verbatim>\<open>02:02:25\<close> with the date of \<open>today\<close> (the current day at midnight, without time
  zone).
\<close>

fun sample_parse_at :: "datetime \<Rightarrow> date_parser" where
  "sample_parse_at today (PyStr s) =
     (if s = ''02:02:25'' then Inr (today\<lparr>hour := 2, minute := 2, second := 25\<rparr>)
      else sample_parse (PyStr s))"
| "sample_parse_at today v = sample_parse v"

definition day_2021_07_31 :: datetime where
  "day_2021_07_31 =
     \<lparr> year = 2021, month = 7, day = 31, hour = 0, minute = 0, second = 0,
       microsecond = 0, utcoffset = None \<rparr>"

definition day_2021_08_01 :: datetime where
  "day_2021_08_01 =
     \<lparr> year = 2021, month = 8, day = 1, hour = 0, minute = 0, second = 0,
       microsecond = 0, utcoffset = None \<rparr>"

section \<open>Notions of the specification\<close>

text \<open>A value is the name of a member of an enumeration.\<close>

fun names_member :: "(string \<times> 'a) list \<Rightarrow> pyval \<Rightarrow> bool" where
  "names_member member_map (PyStr s) = (s \<in> set (map fst member_map))"
| "names_member member_map v = False"

text \<open>
  The entry of a key is missing, null, or a value that does not name a member after
  uppercasing (a value that is no string has no uppercasing).
\<close>

fun bad_enum_entry ::
  "(string \<Rightarrow> string) \<Rightarrow> (string \<times> 'a) list \<Rightarrow> pyval option \<Rightarrow> bool" where
  "bad_enum_entry str_upper member_map None = True"
| "bad_enum_entry str_upper member_map (Some PyNone) = True"
| "bad_enum_entry str_upper member_map (Some (PyStr s)) =
     (\<not> names_member member_map (PyStr (str_upper s)))"
| "bad_enum_entry str_upper member_map (Some v) = True"



text \<open>The fifteen keys \<^verbatim>\<open>from_dict\<close> reads.\<close>

definition recognized_keys :: "string list" where
  "recognized_keys =
     [''id'', ''cloudProvider'', ''createdAt'', ''expiresAt'', ''description'',
      ''snapshotType'', ''type'', ''status'', ''storageSizeBytes'', ''replicaSetName'',
      ''links'', ''masterKeyUUID'', ''members'', ''mongodVersion'', ''snapshotIds'']"

section \<open>Evaluation of the model\<close>

lemma upper_names:
  "ascii_upper ''scheduled'' = ''SCHEDULED''"
  "ascii_upper ''replicaSet'' = ''REPLICASET''"
  "ascii_upper ''completed'' = ''COMPLETED''"
  by code_simp+

text \<open>
  \<^verbatim>\<open>from_dict\<close> returns an object exactly when its six fallible steps succeed, and the
  object is then built from their results and the values passed through.
\<close>

lemma from_dict_returns:
  assumes "from_dict str_upper parse d = (log, Inr r)"
  shows "\<exists>cp l1 ca l2 ea st ct ss.
     lookup_cloud_provider d = Inr cp \<and>
     try_date parse (dict_get d ''createdAt'') = (l1, Inr ca) \<and>
     try_date parse (dict_get d ''expiresAt'') = (l2, Inr ea) \<and>
     lookup_upper str_upper SnapshotType_members d ''snapshotType'' = Inr st \<and>
     lookup_upper str_upper ClusterType_members d ''type'' = Inr ct \<and>
     lookup_upper str_upper SnapshotStatus_members d ''status'' = Inr ss \<and>
     log = l1 @ l2 \<and>
     r = CloudBackupSnapshot_init
           (Some (dict_get d ''id'')) (Some (PyProviderName cp)) (Some ca)
           (Some (dict_get d ''description'')) (Some ea) (Some (dict_get d ''links''))
           (Some (dict_get d ''masterKeyUUID'')) (Some (dict_get d ''members''))
           (Some (dict_get d ''mongodVersion'')) (Some (dict_get d ''replicaSetName''))
           (Some (dict_get d ''snapshotIds'')) (Some (PySnapshotType st))
           (Some (PySnapshotStatus ss)) (Some (dict_get d ''storageSizeBytes''))
           (Some (PyClusterType ct))"
  using assms unfolding from_dict_def Let_def
  by (auto split: sum.splits prod.splits)

lemma from_dict_steps:
  assumes "lookup_cloud_provider d = Inr cp"
    and "try_date parse (dict_get d ''createdAt'') = (l1, Inr ca)"
    and "try_date parse (dict_get d ''expiresAt'') = (l2, Inr ea)"
    and "lookup_upper str_upper SnapshotType_members d ''snapshotType'' = Inr st"
    and "lookup_upper str_upper ClusterType_members d ''type'' = Inr ct"
    and "lookup_upper str_upper SnapshotStatus_members d ''status'' = Inr ss"
  shows "from_dict str_upper parse d = (l1 @ l2, Inr (CloudBackupSnapshot_init
           (Some (dict_get d ''id'')) (Some (PyProviderName cp)) (Some ca)
           (Some (dict_get d ''description'')) (Some ea) (Some (dict_get d ''links''))
           (Some (dict_get d ''masterKeyUUID'')) (Some (dict_get d ''members''))
           (Some (dict_get d ''mongodVersion'')) (Some (dict_get d ''replicaSetName''))
           (Some (dict_get d ''snapshotIds'')) (Some (PySnapshotType st))
           (Some (PySnapshotStatus ss)) (Some (dict_get d ''storageSizeBytes''))
           (Some (PyClusterType ct))))"
  using assms unfolding from_dict_def Let_def by simp

section \<open>The three lookups without fallback\<close>

lemma bad_enum_entry_raises:
  assumes "bad_enum_entry str_upper member_map (d key)"
  shows "\<exists>e. lookup_upper str_upper member_map d key = Inl e"
proof (cases "d key")
  case None
  then show ?thesis by (simp add: lookup_upper_def dict_get_def)
next
  case (Some v)
  show ?thesis
  proof (cases v)
    case (PyStr s)
    with Some assms have "str_upper s \<notin> fst ` set member_map" by simp
    then have "map_of member_map (str_upper s) = None" by (simp add: map_of_eq_None_iff)
    with Some PyStr show ?thesis by (simp add: lookup_upper_def dict_get_def)
  qed (use Some in \<open>simp_all add: lookup_upper_def dict_get_def\<close>)
qed

text \<open>
  C1. Whenever the entry of \<^verbatim>\<open>snapshotType\<close>, \<^verbatim>\<open>type\<close> or \<^verbatim>\<open>status\<close> is missing, null,
  or a value that does not name a member of its enumeration after uppercasing (by
  \<^verbatim>\<open>str.upper\<close>, whatever it does to the string), \<^verbatim>\<open>from_dict\<close> ends with an exception
  and returns no object.
\<close>

theorem from_dict_fatal_lookups:
  assumes "bad_enum_entry str_upper SnapshotType_members (data_dict ''snapshotType'')
         \<or> bad_enum_entry str_upper ClusterType_members (data_dict ''type'')
         \<or> bad_enum_entry str_upper SnapshotStatus_members (data_dict ''status'')"
  shows "\<exists>e. snd (from_dict str_upper parse data_dict) = Inl e"
proof -
  from assms have
    "(\<exists>e. lookup_upper str_upper SnapshotType_members data_dict ''snapshotType'' = Inl e)
   \<or> (\<exists>e. lookup_upper str_upper ClusterType_members data_dict ''type'' = Inl e)
   \<or> (\<exists>e. lookup_upper str_upper SnapshotStatus_members data_dict ''status'' = Inl e)"
    using bad_enum_entry_raises [of str_upper SnapshotType_members data_dict "''snapshotType''"]
      bad_enum_entry_raises [of str_upper ClusterType_members data_dict "''type''"]
      bad_enum_entry_raises [of str_upper SnapshotStatus_members data_dict "''status''"]
    by blast
  then show ?thesis
    unfolding from_dict_def Let_def
    by (auto split: sum.splits prod.splits)
qed

text \<open>The dictionary \<^verbatim>\<open>test_data\<close> without its \<^verbatim>\<open>status\<close> key.\<close>

theorem from_dict_fatal_lookups_witness:
  "bad_enum_entry ascii_upper SnapshotStatus_members ((test_data(''status'' := None)) ''status'')
   \<and> (\<exists>e. snd (from_dict ascii_upper sample_parse (test_data(''status'' := None))) = Inl e)"
  using from_dict_fatal_lookups [of ascii_upper "test_data(''status'' := None)" sample_parse]
  by simp

text \<open>
  The uppercasing is Python's, not the ASCII one: a status spelt with the dotless i is
  uppercased to the member name \<^verbatim>\<open>INPROGRESS\<close>, the entry is not a bad one, and
  \<^verbatim>\<open>from_dict\<close> returns an object with that status.
\<close>

lemma sample_upper_ascii:
  assumes "isascii s"
  shows "sample_upper s = ascii_upper s"
  using assms
proof (induction s rule: sample_upper.induct)
  case (3 c d s)
  from "3.prems" have "(of_char c :: nat) < 128" and rest: "isascii (d # s)" "isascii s"
    by (simp_all add: isascii_def)
  then have "c \<noteq> CHR 0xC4" by auto
  with 3 rest show ?case by (simp add: ascii_upper_def)
qed (simp_all add: ascii_upper_def)

lemma dotless_i_status:
  "\<not> bad_enum_entry sample_upper SnapshotStatus_members (Some (PyStr (dotless_i @ ''nprogress'')))"
  "\<not> isl (snd (from_dict sample_upper sample_parse
             (test_data(''status'' \<mapsto> PyStr (dotless_i @ ''nprogress'')))))"
  "status (projr (snd (from_dict sample_upper sample_parse
             (test_data(''status'' \<mapsto> PyStr (dotless_i @ ''nprogress''))))))
     = PySnapshotStatus INPROGRESS"
  by code_simp+

section \<open>The provider lookup\<close>

lemma provider_lookup_KeyError:
  assumes "hashable v" and "\<not> names_member ProviderName_members v"
  shows "(case enum_getitem ProviderName_members v of
            Inr m \<Rightarrow> Inr m | Inl e \<Rightarrow> if e = KeyError then Inr TENANT else Inl e)
         = (Inr TENANT :: exn + ProviderName)"
proof (cases v)
  case (PyStr s)
  with assms(2) have "s \<notin> fst ` set ProviderName_members" by simp
  then have "map_of ProviderName_members s = None" by (simp add: map_of_eq_None_iff)
  with PyStr show ?thesis by simp
qed (use assms(1) in simp_all)

text \<open>
  C2, as amended. When the key \<^verbatim>\<open>cloudProvider\<close> is absent, or holds a value that can be
  hashed (null, a boolean, a number, a string, compared with the member names as it is)
  and that is not the name of a \<^verbatim>\<open>ProviderName\<close> member, the provider lookup succeeds
  with \<^verbatim>\<open>ProviderName.TENANT\<close>, and every object \<^verbatim>\<open>from_dict\<close> returns has it as its
  \<^verbatim>\<open>cloud_provider\<close>.
\<close>

theorem cloud_provider_fallback:
  assumes "data_dict ''cloudProvider'' = None
         \<or> (\<exists>v. data_dict ''cloudProvider'' = Some v \<and> hashable v
                \<and> \<not> names_member ProviderName_members v)"
  shows "lookup_cloud_provider data_dict = Inr TENANT
       \<and> (\<forall>log r. from_dict str_upper parse data_dict = (log, Inr r)
                  \<longrightarrow> cloud_provider r = PyProviderName TENANT)"
proof -
  have "hashable (dict_get data_dict ''cloudProvider'')
      \<and> \<not> names_member ProviderName_members (dict_get data_dict ''cloudProvider'')"
    using assms by (auto simp: dict_get_def)
  then have step: "lookup_cloud_provider data_dict = Inr TENANT"
    unfolding lookup_cloud_provider_def using provider_lookup_KeyError by blast
  moreover have "cloud_provider r = PyProviderName TENANT"
    if "from_dict str_upper parse data_dict = (log, Inr r)" for log r
    using from_dict_returns [OF that] step
    by (auto simp: CloudBackupSnapshot_init_def default_None_def)
  ultimately show ?thesis by blast
qed

lemma lowercase_provider:
  "(test_data(''cloudProvider'' \<mapsto> PyStr ''aws'')) ''cloudProvider'' = Some (PyStr ''aws'')"
  "hashable (PyStr ''aws'')"
  "\<not> names_member ProviderName_members (PyStr ''aws'')"
  by (simp_all add: ProviderName_members_def)

lemma returns_object:
  assumes "\<not> isl (snd p)"
  shows "\<exists>log r. p = (log, Inr r)"
proof (cases p)
  case (Pair log res)
  with assms show ?thesis by (cases res) simp_all
qed

lemma lowercase_provider_parsed:
  "\<not> isl (snd (from_dict ascii_upper sample_parse (test_data(''cloudProvider'' \<mapsto> PyStr ''aws''))))"
  by code_simp

text \<open>The lowercase string \<^verbatim>\<open>aws\<close> is no member name: the lookup is case-sensitive.\<close>

theorem cloud_provider_fallback_witness:
  "(test_data(''cloudProvider'' \<mapsto> PyStr ''aws'')) ''cloudProvider'' = Some (PyStr ''aws'')
   \<and> hashable (PyStr ''aws'')
   \<and> \<not> names_member ProviderName_members (PyStr ''aws'')
   \<and> lookup_cloud_provider (test_data(''cloudProvider'' \<mapsto> PyStr ''aws'')) = Inr TENANT
   \<and> (\<exists>log r. from_dict ascii_upper sample_parse (test_data(''cloudProvider'' \<mapsto> PyStr ''aws'')) = (log, Inr r)
         \<and> cloud_provider r = PyProviderName TENANT)"
proof -
  obtain log r where
    "from_dict ascii_upper sample_parse (test_data(''cloudProvider'' \<mapsto> PyStr ''aws'')) = (log, Inr r)"
    using returns_object [OF lowercase_provider_parsed] by blast
  then show ?thesis
    using cloud_provider_fallback [of "test_data(''cloudProvider'' \<mapsto> PyStr ''aws'')"
        ascii_upper sample_parse]
      lowercase_provider
    by blast
qed

text \<open>
  A list under \<^verbatim>\<open>cloudProvider\<close> is not the name of a member either, but the lookup raises
  \<^verbatim>\<open>TypeError\<close> (the list cannot be hashed), which the \<^verbatim>\<open>except KeyError\<close> clause lets
  through.
\<close>

theorem cloud_provider_unhashable_counterexample:
  "(test_data(''cloudProvider'' \<mapsto> PyList [])) ''cloudProvider'' = Some (PyList [])
   \<and> \<not> names_member ProviderName_members (PyList [])
   \<and> lookup_cloud_provider (test_data(''cloudProvider'' \<mapsto> PyList [])) = Inl TypeError
   \<and> from_dict ascii_upper sample_parse (test_data(''cloudProvider'' \<mapsto> PyList [])) = ([], Inl TypeError)"
  by (simp add: lookup_cloud_provider_def from_dict_def dict_get_def)

section \<open>Dates\<close>


text \<open>
  An exception of any other class leaves \<^verbatim>\<open>try_date\<close>, and with it \<^verbatim>\<open>from_dict\<close>.
\<close>

lemma try_date_uncaught:
  assumes "parse v = Inl e" and "e \<notin> {ValueError, TypeError, AttributeError}"
  shows "try_date parse v = ([], Inl e)"
  using assms by (auto simp: try_date_def)

lemma from_dict_created_at_uncaught:
  assumes "lookup_cloud_provider d = Inr cp"
    and "parse (dict_get d ''createdAt'') = Inl e"
    and "e \<notin> {ValueError, TypeError, AttributeError}"
  shows "from_dict str_upper parse d = ([], Inl e)"
  using assms(1) try_date_uncaught [of parse "dict_get d ''createdAt''" e, OF assms(2,3)]
  by (simp add: from_dict_def)

lemma from_dict_expires_at_uncaught:
  assumes "lookup_cloud_provider d = Inr cp"
    and "try_date parse (dict_get d ''createdAt'') = (l1, Inr ca)"
    and "parse (dict_get d ''expiresAt'') = Inl e"
    and "e \<notin> {ValueError, TypeError, AttributeError}"
  shows "from_dict str_upper parse d = (l1, Inl e)"
  using assms(1,2) try_date_uncaught [of parse "dict_get d ''expiresAt''" e, OF assms(3,4)]
  by (simp add: from_dict_def)





section \<open>Case-insensitive names\<close>


















section \<open>The scenario\<close>

text \<open>
  C5. On the scenario's dictionary, with a date parser that reads
  \<^verbatim>\<open>2021-07-31T02:02:25Z\<close> as that timestamp and \<^verbatim>\<open>2021-08-28T02:03:22Z\<close> as some
  datetime, and with \<^verbatim>\<open>str.upper\<close> as it is on ASCII strings, \<^verbatim>\<open>from_dict\<close> logs
  nothing and returns the object with \<^verbatim>\<open>snapshot_type\<close>
  SCHEDULED, \<^verbatim>\<open>type\<close> REPLICASET, \<^verbatim>\<open>status\<close> COMPLETED, \<^verbatim>\<open>cloud_provider\<close> AWS,
  \<^verbatim>\<open>created_at\<close> that timestamp and \<^verbatim>\<open>storage_size_bytes\<close> 14380134400 (the other
  attributes as listed).
\<close>

theorem from_dict_scenario:
  assumes "parse (PyStr ''2021-07-31T02:02:25Z'') = Inr created_2021_07_31"
    and "parse (PyStr ''2021-08-28T02:03:22Z'') = Inr expires"
    and "\<forall>s. isascii s \<longrightarrow> str_upper s = ascii_upper s"
  shows "from_dict str_upper parse scenario_data =
     ([], Inr \<lparr> type_attr = PyClusterType REPLICASET,
                storage_size_bytes = PyInt 14380134400,
                status = PySnapshotStatus COMPLETED,
                snapshot_type = PySnapshotType SCHEDULED,
                snapshot_ids = PyNone,
                replica_set_name = PyStr ''pyAtlasTestCluster'',
                mongod_version = PyStr ''4.2.15'',
                members = PyNone,
                masterkey_uuid = PyNone,
                links = PyNone,
                expires_at = PyDatetime expires,
                description = PyNone,
                created_at = PyDatetime created_2021_07_31,
                cloud_provider = PyProviderName AWS,
                id_attr = PyStr ''6104a8c6c1b4ef7788b5d8f0'' \<rparr>)"
proof -
  have cp: "lookup_cloud_provider scenario_data = Inr AWS"
    by (simp add: lookup_cloud_provider_def dict_get_def scenario_data_def
        ProviderName_members_def)
  have ca: "try_date parse (dict_get scenario_data ''createdAt'')
              = ([], Inr (PyDatetime created_2021_07_31))"
    using assms(1) by (simp add: try_date_def dict_get_def scenario_data_def)
  have ea: "try_date parse (dict_get scenario_data ''expiresAt'')
              = ([], Inr (PyDatetime expires))"
    using assms(2) by (simp add: try_date_def dict_get_def scenario_data_def)
  have "isascii ''scheduled''" "isascii ''replicaSet''" "isascii ''completed''"
    by code_simp+
  with assms(3) have up: "str_upper ''scheduled'' = ''SCHEDULED''"
    "str_upper ''replicaSet'' = ''REPLICASET''" "str_upper ''completed'' = ''COMPLETED''"
    by (simp_all add: upper_names)
  have st: "lookup_upper str_upper SnapshotType_members scenario_data ''snapshotType'' = Inr SCHEDULED"
    by (simp add: lookup_upper_def dict_get_def scenario_data_def up
        SnapshotType_members_def)
  have ct: "lookup_upper str_upper ClusterType_members scenario_data ''type'' = Inr REPLICASET"
    by (simp add: lookup_upper_def dict_get_def scenario_data_def up
        ClusterType_members_def)
  have ss: "lookup_upper str_upper SnapshotStatus_members scenario_data ''status'' = Inr COMPLETED"
    by (simp add: lookup_upper_def dict_get_def scenario_data_def up
        SnapshotStatus_members_def)
  have vals: "dict_get scenario_data ''id'' = PyStr ''6104a8c6c1b4ef7788b5d8f0''"
    "dict_get scenario_data ''description'' = PyNone"
    "dict_get scenario_data ''links'' = PyNone"
    "dict_get scenario_data ''masterKeyUUID'' = PyNone"
    "dict_get scenario_data ''members'' = PyNone"
    "dict_get scenario_data ''mongodVersion'' = PyStr ''4.2.15''"
    "dict_get scenario_data ''replicaSetName'' = PyStr ''pyAtlasTestCluster''"
    "dict_get scenario_data ''snapshotIds'' = PyNone"
    "dict_get scenario_data ''storageSizeBytes'' = PyInt 14380134400"
    by (simp_all add: dict_get_def scenario_data_def)
  show ?thesis
    using from_dict_steps [OF cp ca ea st ct ss]
    by (simp add: vals CloudBackupSnapshot_init_def default_None_def)
qed

theorem from_dict_scenario_witness:
  "sample_parse (PyStr ''2021-07-31T02:02:25Z'') = Inr created_2021_07_31
   \<and> sample_parse (PyStr ''2021-08-28T02:03:22Z'') = Inr expires_2021_08_28
   \<and> snapshot_type (projr (snd (from_dict ascii_upper sample_parse scenario_data))) = PySnapshotType SCHEDULED
   \<and> type_attr (projr (snd (from_dict ascii_upper sample_parse scenario_data))) = PyClusterType REPLICASET
   \<and> status (projr (snd (from_dict ascii_upper sample_parse scenario_data))) = PySnapshotStatus COMPLETED
   \<and> cloud_provider (projr (snd (from_dict ascii_upper sample_parse scenario_data))) = PyProviderName AWS
   \<and> created_at (projr (snd (from_dict ascii_upper sample_parse scenario_data)))
       = PyDatetime \<lparr> year = 2021, month = 7, day = 31, hour = 2, minute = 2, second = 25,
                      microsecond = 0, utcoffset = Some 0 \<rparr>
   \<and> storage_size_bytes (projr (snd (from_dict ascii_upper sample_parse scenario_data))) = PyInt 14380134400"
  using from_dict_scenario [where parse = sample_parse and expires = expires_2021_08_28
      and str_upper = ascii_upper]
  by (simp add: created_2021_07_31_def)

section \<open>Values passed through\<close>

text \<open>
  C6. An object returned by \<^verbatim>\<open>from_dict\<close> holds under \<^verbatim>\<open>id\<close>, \<^verbatim>\<open>description\<close>,
  \<^verbatim>\<open>storage_size_bytes\<close>, \<^verbatim>\<open>replica_set_name\<close>, \<^verbatim>\<open>links\<close>, \<^verbatim>\<open>masterkey_uuid\<close>,
  \<^verbatim>\<open>members\<close>, \<^verbatim>\<open>mongod_version\<close> and \<^verbatim>\<open>snapshot_ids\<close> what \<^verbatim>\<open>data_dict.get\<close>
  gives for the corresponding key: the value of the key unchanged, and \<^verbatim>\<open>None\<close> when the
  key is missing.
\<close>

theorem from_dict_passes_through:
  assumes "from_dict str_upper parse data_dict = (log, Inr r)"
  shows "id_attr r = dict_get data_dict ''id''
       \<and> description r = dict_get data_dict ''description''
       \<and> storage_size_bytes r = dict_get data_dict ''storageSizeBytes''
       \<and> replica_set_name r = dict_get data_dict ''replicaSetName''
       \<and> links r = dict_get data_dict ''links''
       \<and> masterkey_uuid r = dict_get data_dict ''masterKeyUUID''
       \<and> members r = dict_get data_dict ''members''
       \<and> mongod_version r = dict_get data_dict ''mongodVersion''
       \<and> snapshot_ids r = dict_get data_dict ''snapshotIds''
       \<and> (\<forall>key v. data_dict key = Some v \<longrightarrow> dict_get data_dict key = v)
       \<and> (\<forall>key. data_dict key = None \<longrightarrow> dict_get data_dict key = PyNone)"
  using from_dict_returns [OF assms]
  by (auto simp: CloudBackupSnapshot_init_def default_None_def dict_get_def)

lemma test_data_parsed: "\<not> isl (snd (from_dict ascii_upper sample_parse test_data))"
  by code_simp

lemma test_data_entries:
  "dict_get test_data ''id'' = PyStr ''6104a8c6c1b4ef7788b5d8f0''"
  "dict_get test_data ''storageSizeBytes'' = PyInt 14380134400"
  "dict_get test_data ''replicaSetName'' = PyStr ''pyAtlasTestCluster''"
  "dict_get test_data ''mongodVersion'' = PyStr ''4.2.15''"
  "dict_get test_data ''description'' = PyNone"
  "dict_get test_data ''masterKeyUUID'' = PyNone"
  "dict_get test_data ''members'' = PyNone"
  "dict_get test_data ''snapshotIds'' = PyNone"
  by (simp_all add: dict_get_def test_data_def)

theorem from_dict_passes_through_witness:
  "\<exists>log r. from_dict ascii_upper sample_parse test_data = (log, Inr r)
     \<and> id_attr r = PyStr ''6104a8c6c1b4ef7788b5d8f0''
     \<and> storage_size_bytes r = PyInt 14380134400
     \<and> replica_set_name r = PyStr ''pyAtlasTestCluster''
     \<and> mongod_version r = PyStr ''4.2.15''
     \<and> description r = PyNone
     \<and> masterkey_uuid r = PyNone
     \<and> members r = PyNone
     \<and> snapshot_ids r = PyNone"
proof -
  obtain log r where parsed: "from_dict ascii_upper sample_parse test_data = (log, Inr r)"
    using returns_object [OF test_data_parsed] by blast
  show ?thesis
    using from_dict_passes_through [OF parsed] parsed test_data_entries by simp
qed

section \<open>The constructor\<close>

text \<open>
  C7. Each of the fifteen attributes of a constructed object is the argument supplied
  for it, whatever value that is, and \<^verbatim>\<open>None\<close> when the argument is left out.
\<close>

theorem init_stores_arguments:
  "id_attr (CloudBackupSnapshot_init a1 a2 a3 a4 a5 a6 a7 a8 a9 a10 a11 a12 a13 a14 a15)
     = (case a1 of None \<Rightarrow> PyNone | Some v \<Rightarrow> v)
   \<and> cloud_provider (CloudBackupSnapshot_init a1 a2 a3 a4 a5 a6 a7 a8 a9 a10 a11 a12 a13 a14 a15)
     = (case a2 of None \<Rightarrow> PyNone | Some v \<Rightarrow> v)
   \<and> created_at (CloudBackupSnapshot_init a1 a2 a3 a4 a5 a6 a7 a8 a9 a10 a11 a12 a13 a14 a15)
     = (case a3 of None \<Rightarrow> PyNone | Some v \<Rightarrow> v)
   \<and> description (CloudBackupSnapshot_init a1 a2 a3 a4 a5 a6 a7 a8 a9 a10 a11 a12 a13 a14 a15)
     = (case a4 of None \<Rightarrow> PyNone | Some v \<Rightarrow> v)
   \<and> expires_at (CloudBackupSnapshot_init a1 a2 a3 a4 a5 a6 a7 a8 a9 a10 a11 a12 a13 a14 a15)
     = (case a5 of None \<Rightarrow> PyNone | Some v \<Rightarrow> v)
   \<and> links (CloudBackupSnapshot_init a1 a2 a3 a4 a5 a6 a7 a8 a9 a10 a11 a12 a13 a14 a15)
     = (case a6 of None \<Rightarrow> PyNone | Some v \<Rightarrow> v)
   \<and> masterkey_uuid (CloudBackupSnapshot_init a1 a2 a3 a4 a5 a6 a7 a8 a9 a10 a11 a12 a13 a14 a15)
     = (case a7 of None \<Rightarrow> PyNone | Some v \<Rightarrow> v)
   \<and> members (CloudBackupSnapshot_init a1 a2 a3 a4 a5 a6 a7 a8 a9 a10 a11 a12 a13 a14 a15)
     = (case a8 of None \<Rightarrow> PyNone | Some v \<Rightarrow> v)
   \<and> mongod_version (CloudBackupSnapshot_init a1 a2 a3 a4 a5 a6 a7 a8 a9 a10 a11 a12 a13 a14 a15)
     = (case a9 of None \<Rightarrow> PyNone | Some v \<Rightarrow> v)
   \<and> replica_set_name (CloudBackupSnapshot_init a1 a2 a3 a4 a5 a6 a7 a8 a9 a10 a11 a12 a13 a14 a15)
     = (case a10 of None \<Rightarrow> PyNone | Some v \<Rightarrow> v)
   \<and> snapshot_ids (CloudBackupSnapshot_init a1 a2 a3 a4 a5 a6 a7 a8 a9 a10 a11 a12 a13 a14 a15)
     = (case a11 of None \<Rightarrow> PyNone | Some v \<Rightarrow> v)
   \<and> snapshot_type (CloudBackupSnapshot_init a1 a2 a3 a4 a5 a6 a7 a8 a9 a10 a11 a12 a13 a14 a15)
     = (case a12 of None \<Rightarrow> PyNone | Some v \<Rightarrow> v)
   \<and> status (CloudBackupSnapshot_init a1 a2 a3 a4 a5 a6 a7 a8 a9 a10 a11 a12 a13 a14 a15)
     = (case a13 of None \<Rightarrow> PyNone | Some v \<Rightarrow> v)
   \<and> storage_size_bytes (CloudBackupSnapshot_init a1 a2 a3 a4 a5 a6 a7 a8 a9 a10 a11 a12 a13 a14 a15)
     = (case a14 of None \<Rightarrow> PyNone | Some v \<Rightarrow> v)
   \<and> type_attr (CloudBackupSnapshot_init a1 a2 a3 a4 a5 a6 a7 a8 a9 a10 a11 a12 a13 a14 a15)
     = (case a15 of None \<Rightarrow> PyNone | Some v \<Rightarrow> v)"
  by (simp add: CloudBackupSnapshot_init_def default_None_def)

theorem init_stores_arguments_witness:
  "id_attr (CloudBackupSnapshot_init (Some (PyInt 7)) None None None None None None None None
      None None (Some (PyStr ''scheduled'')) None None None) = PyInt 7
   \<and> snapshot_type (CloudBackupSnapshot_init (Some (PyInt 7)) None None None None None None None
      None None None (Some (PyStr ''scheduled'')) None None None) = PyStr ''scheduled''
   \<and> status (CloudBackupSnapshot_init (Some (PyInt 7)) None None None None None None None None
      None None (Some (PyStr ''scheduled'')) None None None) = PyNone"
  using init_stores_arguments [of "Some (PyInt 7)" None None None None None None None None
      None None "Some (PyStr ''scheduled'')" None None None]
  by simp

section \<open>Determinism\<close>

text \<open>
  C8, as amended. Two calls of \<^verbatim>\<open>from_dict\<close> on the same dictionary, at moments at which
  the date parser gives the same answer for the value of \<^verbatim>\<open>createdAt\<close> and for the value
  of \<^verbatim>\<open>expiresAt\<close>, have the same outcome: the same exception, or objects with the same
  fifteen attributes, and the same log records. Nothing else in \<^verbatim>\<open>from_dict\<close> depends on
  the moment of the call.
\<close>

theorem from_dict_same_dates_same_outcome:
  assumes "parse1 (dict_get data_dict ''createdAt'') = parse2 (dict_get data_dict ''createdAt'')"
    and "parse1 (dict_get data_dict ''expiresAt'') = parse2 (dict_get data_dict ''expiresAt'')"
  shows "from_dict str_upper parse1 data_dict = from_dict str_upper parse2 data_dict"
  unfolding from_dict_def try_date_def assms
  by (rule refl)

text \<open>
  The timestamps of \<^verbatim>\<open>test_data\<close> carry a full date: the parser of two different days
  reads them alike, and the two calls return the same object.
\<close>

theorem from_dict_same_dates_same_outcome_witness:
  "sample_parse_at day_2021_07_31 (dict_get test_data ''createdAt'')
     = sample_parse_at day_2021_08_01 (dict_get test_data ''createdAt'')
   \<and> sample_parse_at day_2021_07_31 (dict_get test_data ''expiresAt'')
     = sample_parse_at day_2021_08_01 (dict_get test_data ''expiresAt'')
   \<and> sample_parse_at day_2021_07_31 (PyStr ''02:02:25'')
     \<noteq> sample_parse_at day_2021_08_01 (PyStr ''02:02:25'')
   \<and> \<not> isl (snd (from_dict ascii_upper (sample_parse_at day_2021_07_31) test_data))
   \<and> from_dict ascii_upper (sample_parse_at day_2021_07_31) test_data
     = from_dict ascii_upper (sample_parse_at day_2021_08_01) test_data"
proof -
  have created: "sample_parse_at day_2021_07_31 (dict_get test_data ''createdAt'')
      = sample_parse_at day_2021_08_01 (dict_get test_data ''createdAt'')"
    by (simp add: dict_get_def test_data_def)
  have expires: "sample_parse_at day_2021_07_31 (dict_get test_data ''expiresAt'')
      = sample_parse_at day_2021_08_01 (dict_get test_data ''expiresAt'')"
    by (simp add: dict_get_def test_data_def)
  have differ: "sample_parse_at day_2021_07_31 (PyStr ''02:02:25'')
      \<noteq> sample_parse_at day_2021_08_01 (PyStr ''02:02:25'')"
    by (simp add: day_2021_07_31_def day_2021_08_01_def)
  have returns: "\<not> isl (snd (from_dict ascii_upper (sample_parse_at day_2021_07_31) test_data))"
    by code_simp
  have same: "from_dict ascii_upper (sample_parse_at day_2021_07_31) test_data
      = from_dict ascii_upper (sample_parse_at day_2021_08_01) test_data"
    by (rule from_dict_same_dates_same_outcome [OF created expires])
  from created expires differ returns same show ?thesis by (intro conjI)
qed

text \<open>
  A time of day without a date under \<^verbatim>\<open>createdAt\<close>: the calls of two different days both
  return an object, with different \<^verbatim>\<open>created_at\<close>.
\<close>

theorem from_dict_clock_counterexample:
  "\<not> isl (snd (from_dict ascii_upper (sample_parse_at day_2021_07_31)
                 (test_data(''createdAt'' \<mapsto> PyStr ''02:02:25''))))
   \<and> \<not> isl (snd (from_dict ascii_upper (sample_parse_at day_2021_08_01)
                 (test_data(''createdAt'' \<mapsto> PyStr ''02:02:25''))))
   \<and> created_at (projr (snd (from_dict ascii_upper (sample_parse_at day_2021_07_31)
                 (test_data(''createdAt'' \<mapsto> PyStr ''02:02:25'')))))
     = PyDatetime \<lparr> year = 2021, month = 7, day = 31, hour = 2, minute = 2, second = 25,
                    microsecond = 0, utcoffset = None \<rparr>
   \<and> created_at (projr (snd (from_dict ascii_upper (sample_parse_at day_2021_08_01)
                 (test_data(''createdAt'' \<mapsto> PyStr ''02:02:25'')))))
     = PyDatetime \<lparr> year = 2021, month = 8, day = 1, hour = 2, minute = 2, second = 25,
                    microsecond = 0, utcoffset = None \<rparr>"
  by code_simp

section \<open>The enumerated attributes\<close>

text \<open>
  C9. In an object returned by \<^verbatim>\<open>from_dict\<close>, \<^verbatim>\<open>cloud_provider\<close> is a \<^verbatim>\<open>ProviderName\<close>
  member, \<^verbatim>\<open>snapshot_type\<close> a \<^verbatim>\<open>SnapshotType\<close> member, \<^verbatim>\<open>status\<close> a
  \<^verbatim>\<open>SnapshotStatus\<close> member and \<^verbatim>\<open>type\<close> a \<^verbatim>\<open>ClusterType\<close> member; none of the four
  is \<^verbatim>\<open>None\<close>.
\<close>

theorem from_dict_enum_fields_not_None:
  assumes "from_dict str_upper parse data_dict = (log, Inr r)"
  shows "(\<exists>m. cloud_provider r = PyProviderName m)
       \<and> (\<exists>m. snapshot_type r = PySnapshotType m)
       \<and> (\<exists>m. status r = PySnapshotStatus m)
       \<and> (\<exists>m. type_attr r = PyClusterType m)
       \<and> cloud_provider r \<noteq> PyNone \<and> snapshot_type r \<noteq> PyNone
       \<and> status r \<noteq> PyNone \<and> type_attr r \<noteq> PyNone"
  using from_dict_returns [OF assms]
  by (auto simp: CloudBackupSnapshot_init_def default_None_def)

theorem from_dict_enum_fields_not_None_witness:
  "\<exists>log r. from_dict ascii_upper sample_parse on_demand_data = (log, Inr r)
     \<and> cloud_provider r \<noteq> PyNone \<and> snapshot_type r \<noteq> PyNone
     \<and> status r \<noteq> PyNone \<and> type_attr r \<noteq> PyNone"
proof -
  have "\<not> isl (snd (from_dict ascii_upper sample_parse on_demand_data))"
    by code_simp
  then obtain log r where parsed: "from_dict ascii_upper sample_parse on_demand_data = (log, Inr r)"
    using returns_object by blast
  show ?thesis
    using from_dict_enum_fields_not_None [OF parsed] parsed by blast
qed

section \<open>The keys read\<close>

text \<open>
  C10. Two dictionaries that agree on the fifteen keys \<^verbatim>\<open>from_dict\<close> reads give the same
  outcome: the same exception, or equal objects, and the same log records, whatever other
  keys they hold.
\<close>

theorem from_dict_reads_recognized_keys:
  assumes "\<forall>key \<in> set recognized_keys. d1 key = d2 key"
  shows "from_dict str_upper parse d1 = from_dict str_upper parse d2"
proof -
  have eq: "dict_get d1 key = dict_get d2 key" if "key \<in> set recognized_keys" for key
    using assms that by (simp add: dict_get_def)
  have keys: "dict_get d1 ''id'' = dict_get d2 ''id''"
    "dict_get d1 ''cloudProvider'' = dict_get d2 ''cloudProvider''"
    "dict_get d1 ''createdAt'' = dict_get d2 ''createdAt''"
    "dict_get d1 ''expiresAt'' = dict_get d2 ''expiresAt''"
    "dict_get d1 ''description'' = dict_get d2 ''description''"
    "dict_get d1 ''snapshotType'' = dict_get d2 ''snapshotType''"
    "dict_get d1 ''type'' = dict_get d2 ''type''"
    "dict_get d1 ''status'' = dict_get d2 ''status''"
    "dict_get d1 ''storageSizeBytes'' = dict_get d2 ''storageSizeBytes''"
    "dict_get d1 ''replicaSetName'' = dict_get d2 ''replicaSetName''"
    "dict_get d1 ''links'' = dict_get d2 ''links''"
    "dict_get d1 ''masterKeyUUID'' = dict_get d2 ''masterKeyUUID''"
    "dict_get d1 ''members'' = dict_get d2 ''members''"
    "dict_get d1 ''mongodVersion'' = dict_get d2 ''mongodVersion''"
    "dict_get d1 ''snapshotIds'' = dict_get d2 ''snapshotIds''"
    by (rule eq, simp add: recognized_keys_def)+
  show ?thesis
    unfolding from_dict_def lookup_cloud_provider_def lookup_upper_def keys
    by (rule refl)
qed

theorem from_dict_reads_recognized_keys_witness:
  "list_all (\<lambda>key. test_data key = (test_data(''etag'' \<mapsto> PyStr ''x'')) key) recognized_keys
   \<and> test_data ''etag'' \<noteq> (test_data(''etag'' \<mapsto> PyStr ''x'')) ''etag''
   \<and> from_dict ascii_upper sample_parse test_data = from_dict ascii_upper sample_parse (test_data(''etag'' \<mapsto> PyStr ''x''))"
proof -
  have keys: "\<forall>key \<in> set recognized_keys. test_data key = (test_data(''etag'' \<mapsto> PyStr ''x'')) key"
    by (simp add: recognized_keys_def)
  then have all: "list_all (\<lambda>key. test_data key = (test_data(''etag'' \<mapsto> PyStr ''x'')) key)
      recognized_keys"
    by (simp only: list_all_iff)
  have differ: "test_data ''etag'' \<noteq> (test_data(''etag'' \<mapsto> PyStr ''x'')) ''etag''"
    by (simp add: test_data_def)
  have same: "from_dict ascii_upper sample_parse test_data
      = from_dict ascii_upper sample_parse (test_data(''etag'' \<mapsto> PyStr ''x''))"
    by (rule from_dict_reads_recognized_keys [OF keys])
  from all differ same show ?thesis by (intro conjI)
qed

end
